theory Spec2Isabelle
  imports Main "HOL-Library.Sublist"
begin

section \<open>Python values and exceptions\<close>

text \<open>
  The trainer of \<^verbatim>\<open>graphgallery/gallery/trainer.py\<close> passes around dynamically typed
  values: batches, tensors, metric dictionaries, model and sequence objects. They are
  embedded in one value type. \<open>PyObj n\<close> is an opaque object of the wrapped
  deep-learning framework (a tensor, a model, a sequence, a progress bar), known by its
  identity \<open>n\<close> only. A dict keeps its items in insertion order, keyed by strings
  (metric names, keyword names).
\<close>

datatype pyval =
    PyNone
  | PyBool bool
  | PyInt int
  | PyStr string
  | PyObj nat
  | PyList "pyval list"
  | PyTuple "pyval list"
  | PyDict "(string \<times> pyval) list"

text \<open>
  Exceptions are values. \<open>Raised n\<close> is an exception of a class the trainer itself
  never raises, thrown by framework or user code.
\<close>

datatype error =
    RuntimeError string
  | NotImplementedError
  | IndexError
  | NameError string
  | TypeError
  | AttributeError
  | ValueError
  | Raised nat

type_synonym pydict = "(string \<times> pyval) list"

subsection \<open>Strings and dicts\<close>

definition startswith :: "string \<Rightarrow> string \<Rightarrow> bool" where
  "startswith s p = (take (length p) s = p)"

definition endswith :: "string \<Rightarrow> string \<Rightarrow> bool" where
  "endswith s p = (length p \<le> length s \<and> drop (length s - length p) s = p)"

text \<open>\<^verbatim>\<open>d[k] = v\<close>: an existing key keeps its position, a new key goes to the end.\<close>

fun dict_set :: "pydict \<Rightarrow> string \<Rightarrow> pyval \<Rightarrow> pydict" where
  "dict_set [] k v = [(k, v)]"
| "dict_set ((k', v') # d) k v =
     (if k' = k then (k, v) # d else (k', v') # dict_set d k v)"

text \<open>\<^verbatim>\<open>d.update(e)\<close> for a dict \<open>e\<close>: its items are stored one by one, in order.\<close>

fun dict_update :: "pydict \<Rightarrow> pydict \<Rightarrow> pydict" where
  "dict_update d [] = d"
| "dict_update d ((k, v) # e) = dict_update (dict_set d k v) e"

section \<open>\<^verbatim>\<open>unravel_batch\<close>\<close>

text \<open>
  \<^verbatim>\<open>
  def unravel_batch(batch):
      inputs = labels = out_weight = None
      if isinstance(batch, (list, tuple)):
          inputs = batch[0]
          labels = batch[1]
          if len(batch) > 2:
              out_weight = batch[-1]
      else:
          inputs = batch
      return inputs, labels, out_weight
  \<close>
  \<open>batch[0]\<close> and \<open>batch[1]\<close> raise IndexError on a list or tuple that is too short.
\<close>

fun unravel_items :: "pyval list \<Rightarrow> error + pyval \<times> pyval \<times> pyval" where
  "unravel_items [] = Inl IndexError"
| "unravel_items [inputs] = Inl IndexError"
| "unravel_items (inputs # labels # rest) =
     Inr (inputs, labels,
          if length (inputs # labels # rest) > 2 then last (inputs # labels # rest) else PyNone)"

fun unravel_batch :: "pyval \<Rightarrow> error + pyval \<times> pyval \<times> pyval" where
  "unravel_batch (PyList batch) = unravel_items batch"
| "unravel_batch (PyTuple batch) = unravel_items batch"
| "unravel_batch batch = Inr (batch, PyNone, PyNone)"

section \<open>Configuration\<close>

text \<open>
  The configuration nodes the trainer reads, with the attribute names of the source
  prefixed by their node. \<open>ckpt_vervose\<close> is spelled as the source spells it
  (\<^verbatim>\<open>verbose=ckpt_cfg.vervose\<close>).
\<close>

record ModelCheckpoint_cfg =
  ckpt_enabled :: bool
  ckpt_monitor :: string
  ckpt_path :: string
  ckpt_save_best_only :: bool
  ckpt_save_weights_only :: bool
  ckpt_vervose :: int
  ckpt_remove_weights :: bool

record EarlyStopping_cfg =
  es_enabled :: bool
  es_monitor :: string
  es_patience :: int
  es_mode :: string
  es_verbose :: int
  es_baseline :: pyval
  es_restore_best_weights :: bool

record TensorBoard_cfg =
  tb_enabled :: bool
  tb_log_dir :: string
  tb_write_graph :: bool
  tb_update_freq :: pyval
  tb_histogram_freq :: int
  tb_write_images :: bool

record train_cfg =
  epochs :: int
  verbose :: int
  cache_train_data :: bool
  cache_val_data :: bool
  Progbar_width :: int
  ModelCheckpoint :: ModelCheckpoint_cfg
  EarlyStopping :: EarlyStopping_cfg
  TerminateOnNaN_enabled :: bool
  TensorBoard :: TensorBoard_cfg

record test_cfg =
  test_verbose :: int
  cache_test_data :: bool
  test_Progbar_width :: int

section \<open>The framework as an environment\<close>

text \<open>
  The callbacks that \<^verbatim>\<open>setup_callbacks\<close> constructs, with the arguments it passes.
\<close>

datatype callback =
    History
  | EarlyStopping_cb string int string int pyval bool
  | ModelCheckpoint_cb string string bool bool int
  | TerminateOnNaN_cb
  | TensorBoard_cb string bool pyval int bool

text \<open>The methods of the callback list that \<^verbatim>\<open>train\<close> calls, with their arguments.\<close>

datatype hook =
    on_train_begin
  | on_epoch_begin nat
  | on_train_batch_begin nat
  | on_train_batch_end pyval pydict
  | on_epoch_end nat pydict
  | on_train_end

text \<open>
  Every interaction of the trainer with code outside \<^verbatim>\<open>trainer.py\<close>, grouped by
  what is called: the methods a subclass supplies and the helpers of \<^verbatim>\<open>gf\<close>; the
  methods and the \<^verbatim>\<open>stop_training\<close> attribute of a model; the methods of a
  sequence; library functions; output; the callback list.
\<close>

datatype self_call =
    Process_step pydict
  | Builder pydict
  | Train_sequence pyval
  | Test_sequence pyval
  | Predict_sequence pyval
  | Gf_get pyval

datatype model_call =
    To_device pyval
  | Reset_metrics
  | Train_step_on_batch pyval pyval pyval pyval
  | Test_step_on_batch pyval pyval pyval pyval
  | Predict_step_on_batch pyval pyval pyval
  | Load_weights string
  | Load string
  | Set_stop_training bool
  | Get_stop_training

datatype seq_call =
    Len
  | Iter
  | Seq_device
  | Seq_on_epoch_end

datatype lib_call =
    Tf_device pyval
  | Identity_n pyval
  | Makedirs string
  | Np_arange_num_nodes
  | As_array pyval
  | Vstack "pyval list"
  | Softmax pyval
  | Squeeze pyval
  | Numpy_item pyval

datatype out_call =
    Print string
  | Print_stderr string
  | Warn string
  | Progbar_new pyval int int
  | Progbar_update pyval pyval pydict

datatype call =
    Self self_call
  | Model pyval model_call
  | Sequence pyval seq_call
  | Lib lib_call
  | Output out_call
  | Set_model "callback list" pyval
  | Callbacks "callback list" hook

text \<open>
  What the framework can change: the \<^verbatim>\<open>stop_training\<close> flag of the model under
  training, the files on disk, and its own state \<open>'f\<close>.
\<close>

record 'f world =
  stop_training :: bool
  files :: "string set"
  framework :: 'f

text \<open>
  The environment answers every external call: it returns a value or raises, and
  changes the world. The other fields are the pure functions of the surroundings:
  \<^verbatim>\<open>isinstance(x, Sequence)\<close>, the truth value of an object, the test
  \<^verbatim>\<open>isinstance(m, tf.keras.Model) and m.weights\<close> of the model setter,
  \<^verbatim>\<open>gg.file_ext()\<close>, \<^verbatim>\<open>osp.split(osp.realpath(p))[0]\<close>, and the effect of
  \<^verbatim>\<open>merge_from_dict\<close> on each configuration node.
\<close>

record 'f env =
  ext :: "call \<Rightarrow> 'f world \<Rightarrow> (error + pyval) \<times> 'f world"
  is_Sequence :: "pyval \<Rightarrow> bool"
  obj_truthy :: "nat \<Rightarrow> bool"
  is_keras_with_weights :: "pyval \<Rightarrow> bool"
  file_ext :: string
  real_dir :: "string \<Rightarrow> string"
  merge_train :: "pydict \<Rightarrow> train_cfg \<Rightarrow> train_cfg"
  merge_test :: "pydict \<Rightarrow> test_cfg \<Rightarrow> test_cfg"
  merge_from_dict :: "pydict \<Rightarrow> pydict \<Rightarrow> pydict"

text \<open>Python's truth value of a value (\<^verbatim>\<open>not x\<close> is its negation).\<close>

fun truthy :: "'f env \<Rightarrow> pyval \<Rightarrow> bool" where
  "truthy env PyNone = False"
| "truthy env (PyBool b) = b"
| "truthy env (PyInt i) = (i \<noteq> 0)"
| "truthy env (PyStr s) = (s \<noteq> [])"
| "truthy env (PyObj n) = obj_truthy env n"
| "truthy env (PyList xs) = (xs \<noteq> [])"
| "truthy env (PyTuple xs) = (xs \<noteq> [])"
| "truthy env (PyDict d) = (d \<noteq> [])"

section \<open>The trainer\<close>

text \<open>
  The attributes of a \<^verbatim>\<open>Trainer\<close> that the methods read and write, the world, and the
  trace of all interactions so far, each with its outcome.
\<close>

record cfg_node =
  cfg_process :: pydict
  cfg_model :: pydict
  cfg_train :: train_cfg
  cfg_test :: test_cfg
  cfg_predict_return_logits :: bool

record cache_node =
  cache_train :: pyval
  cache_val :: pyval
  cache_test :: pyval
  cache_predict :: pyval

record 'f trainer =
  self_id :: nat
  is_processed :: bool
  model :: pyval
  backup :: pyval
  backend :: string
  device :: pyval
  cfg :: cfg_node
  transform :: "string \<rightharpoonup> pyval"
  cache :: cache_node
  world :: "'f world"
  trace :: "(call \<times> (error + pyval)) list"

type_synonym ('a, 'f) action = "'f trainer \<Rightarrow> (error + 'a) \<times> 'f trainer"

definition ret :: "'a \<Rightarrow> ('a, 'f) action" where
  "ret x s = (Inr x, s)"

definition raise :: "error \<Rightarrow> ('a, 'f) action" where
  "raise e s = (Inl e, s)"

definition bnd :: "('a, 'f) action \<Rightarrow> ('a \<Rightarrow> ('b, 'f) action) \<Rightarrow> ('b, 'f) action" where
  "bnd m f s = (case m s of (Inl e, s') \<Rightarrow> (Inl e, s') | (Inr x, s') \<Rightarrow> f x s')"

definition lift :: "error + 'a \<Rightarrow> ('a, 'f) action" where
  "lift r s = (r, s)"

definition gets :: "('f trainer \<Rightarrow> 'a) \<Rightarrow> ('a, 'f) action" where
  "gets g s = (Inr (g s), s)"

definition modify :: "('f trainer \<Rightarrow> 'f trainer) \<Rightarrow> (unit, 'f) action" where
  "modify f s = (Inr (), f s)"

text \<open>An external call: the environment answers, the world changes, the trace grows.\<close>

definition call_ext :: "'f env \<Rightarrow> call \<Rightarrow> (pyval, 'f) action" where
  "call_ext env c s =
     (case ext env c (world s) of
        (r, w) \<Rightarrow> (r, s\<lparr>world := w, trace := trace s @ [(c, r)]\<rparr>))"

text \<open>An interaction whose outcome the trainer determines itself (output, attribute access).\<close>

definition emit :: "call \<Rightarrow> pyval \<Rightarrow> (unit, 'f) action" where
  "emit c v s = (Inr (), s\<lparr>trace := trace s @ [(c, Inr v)]\<rparr>)"

text \<open>
  \<^verbatim>\<open>try: body finally: fin\<close>. The final block runs whatever the body did; an exception
  of the final block replaces the outcome of the body.
\<close>

definition try_finally :: "('a, 'f) action \<Rightarrow> (unit, 'f) action \<Rightarrow> ('a, 'f) action" where
  "try_finally body fin s =
     (case body s of
        (r, s1) \<Rightarrow> (case fin s1 of (Inl e, s2) \<Rightarrow> (Inl e, s2) | (Inr u, s2) \<Rightarrow> (r, s2)))"

text \<open>\<^verbatim>\<open>a, b = r\<close> and the use of a value as keyword dictionary.\<close>

fun unpack2 :: "pyval \<Rightarrow> error + pyval \<times> pyval" where
  "unpack2 (PyTuple xs) = (case xs of [a, b] \<Rightarrow> Inr (a, b) | _ \<Rightarrow> Inl ValueError)"
| "unpack2 (PyList xs) = (case xs of [a, b] \<Rightarrow> Inr (a, b) | _ \<Rightarrow> Inl ValueError)"
| "unpack2 v = Inl TypeError"

fun as_dict :: "pyval \<Rightarrow> error + pydict" where
  "as_dict (PyDict d) = Inr d"
| "as_dict v = Inl TypeError"

subsection \<open>The model property\<close>

text \<open>
  \<^verbatim>\<open>
  @model.setter
  def model(self, m):
      if isinstance(m, tf.keras.Model) and m.weights:
          self.backup = tf.identity_n(m.weights)
      self._model = m
  \<close>
\<close>

definition set_model :: "'f env \<Rightarrow> pyval \<Rightarrow> (unit, 'f) action" where
  "set_model env m =
     bnd (if is_keras_with_weights env m
          then bnd (call_ext env (Lib (Identity_n m))) (\<lambda>b. modify (\<lambda>s. s\<lparr>backup := b\<rparr>))
          else ret ())
         (\<lambda>_. modify (\<lambda>s. s\<lparr>model := m\<rparr>))"

subsection \<open>\<^verbatim>\<open>process\<close>\<close>

text \<open>
  \<^verbatim>\<open>
  def process(self, **kwargs):
      cfg = self.cfg.process
      _, kwargs = gf.wrapper(self.process_step)(**kwargs)
      cfg.merge_from_dict(kwargs)
      for k, v in cfg.items():
          if k.endswith("transform"):
              setattr(self.transform, k, gf.get(v))
      self.is_processed = True
      return self
  \<close>
  A method that returns \<^verbatim>\<open>self\<close> returns the object whose identity is \<open>self_id\<close>.
\<close>

fun set_transforms :: "'f env \<Rightarrow> pydict \<Rightarrow> (unit, 'f) action" where
  "set_transforms env [] = ret ()"
| "set_transforms env ((k, v) # items) =
     bnd (if endswith k ''transform''
          then bnd (call_ext env (Self (Gf_get v)))
                 (\<lambda>g. modify (\<lambda>s. s\<lparr>transform := (transform s)(k \<mapsto> g)\<rparr>))
          else ret ())
         (\<lambda>_. set_transforms env items)"

definition return_self :: "(pyval, 'f) action" where
  "return_self = gets (\<lambda>s. PyObj (self_id s))"

definition process :: "'f env \<Rightarrow> pydict \<Rightarrow> (pyval, 'f) action" where
  "process env kwargs =
     bnd (call_ext env (Self (Process_step kwargs))) (\<lambda>r.
     bnd (lift (unpack2 r)) (\<lambda>(u, kwargs').
     bnd (lift (as_dict kwargs')) (\<lambda>kw.
     bnd (modify (\<lambda>s. s\<lparr>cfg := (cfg s)\<lparr>cfg_process := merge_from_dict env (cfg_process (cfg s)) kw\<rparr>\<rparr>)) (\<lambda>_.
     bnd (gets (\<lambda>s. cfg_process (cfg s))) (\<lambda>items.
     bnd (set_transforms env items) (\<lambda>_.
     bnd (modify (\<lambda>s. s\<lparr>is_processed := True\<rparr>)) (\<lambda>_.
     return_self)))))))"

subsection \<open>\<^verbatim>\<open>build\<close> and \<^verbatim>\<open>build_from_model\<close>\<close>

definition process_first :: string where
  "process_first = ''Please call 'trainer.process()' first.''"

text \<open>
  \<^verbatim>\<open>
  def build(self, **kwargs):
      if not self.is_processed:
          raise RuntimeError("Please call 'trainer.process()' first.")
      if self.backend == "tensorflow":
          with tf.device(self.device):
              self.model, kwargs = gf.wrapper(self.builder)(**kwargs)
      else:
          model, kwargs = gf.wrapper(self.builder)(**kwargs)
          self.model = model.to(self.device)
      self.cfg.model.merge_from_dict(kwargs)
      return self
  \<close>
\<close>

definition build :: "'f env \<Rightarrow> pydict \<Rightarrow> (pyval, 'f) action" where
  "build env kwargs =
     bnd (gets is_processed) (\<lambda>processed.
     if \<not> processed then raise (RuntimeError process_first)
     else
       bnd (gets backend) (\<lambda>backend'.
       bnd (if backend' = ''tensorflow''
            then bnd (gets device) (\<lambda>d.
                 bnd (call_ext env (Lib (Tf_device d))) (\<lambda>_.
                 bnd (call_ext env (Self (Builder kwargs))) (\<lambda>r.
                 bnd (lift (unpack2 r)) (\<lambda>(m, kwargs').
                 bnd (set_model env m) (\<lambda>_. ret kwargs')))))
            else bnd (call_ext env (Self (Builder kwargs))) (\<lambda>r.
                 bnd (lift (unpack2 r)) (\<lambda>(model', kwargs').
                 bnd (gets device) (\<lambda>d.
                 bnd (call_ext env (Model model' (To_device d))) (\<lambda>m.
                 bnd (set_model env m) (\<lambda>_. ret kwargs')))))) (\<lambda>kwargs'.
       bnd (lift (as_dict kwargs')) (\<lambda>kw.
       bnd (modify (\<lambda>s. s\<lparr>cfg := (cfg s)\<lparr>cfg_model := merge_from_dict env (cfg_model (cfg s)) kw\<rparr>\<rparr>)) (\<lambda>_.
       return_self)))))"

text \<open>
  \<^verbatim>\<open>
  def build_from_model(self, model):
      if not self.is_processed:
          raise RuntimeError("Please call 'trainer.process()' first.")
      if self.backend == "tensorflow":
          with tf.device(self.device):
              self.model = model
      else:
          self.model = model.to(self.device)
      self.cfg.model.build_from_model = False
      return self
  \<close>
\<close>

definition build_from_model :: "'f env \<Rightarrow> pyval \<Rightarrow> (pyval, 'f) action" where
  "build_from_model env model' =
     bnd (gets is_processed) (\<lambda>processed.
     if \<not> processed then raise (RuntimeError process_first)
     else
       bnd (gets backend) (\<lambda>backend'.
       bnd (gets device) (\<lambda>d.
       bnd (if backend' = ''tensorflow''
            then bnd (call_ext env (Lib (Tf_device d))) (\<lambda>_. set_model env model')
            else bnd (call_ext env (Model model' (To_device d))) (\<lambda>m. set_model env m)) (\<lambda>_.
       bnd (modify (\<lambda>s. s\<lparr>cfg := (cfg s)\<lparr>cfg_model :=
               dict_set (cfg_model (cfg s)) ''build_from_model'' (PyBool False)\<rparr>\<rparr>)) (\<lambda>_.
       return_self)))))"

subsection \<open>\<^verbatim>\<open>train_step\<close>, \<^verbatim>\<open>test_step\<close>, \<^verbatim>\<open>predict_step\<close>\<close>

text \<open>
  \<^verbatim>\<open>
  def train_step(self, sequence):
      model = self.model
      model.reset_metrics()
      results = None
      for batch in sequence:
          inputs, labels, out_weight = unravel_batch(batch)
          results = model.train_step_on_batch(x=inputs, y=labels, out_weight=out_weight,
                                              device=sequence.device)
      return results
  \<close>
  Iterating a sequence yields a finite list of batches (a Keras \<^verbatim>\<open>Sequence\<close> yields
  its items \<open>0 .. len - 1\<close>); the call \<open>Iter\<close> returns them. A value that is not a
  list or tuple is not iterable.
\<close>

fun as_list :: "pyval \<Rightarrow> error + pyval list" where
  "as_list (PyList xs) = Inr xs"
| "as_list (PyTuple xs) = Inr xs"
| "as_list v = Inl TypeError"

fun train_batches :: "'f env \<Rightarrow> pyval \<Rightarrow> pyval \<Rightarrow> pyval list \<Rightarrow> pyval \<Rightarrow> (pyval, 'f) action" where
  "train_batches env m sq [] results = ret results"
| "train_batches env m sq (batch # batches) results =
     bnd (lift (unravel_batch batch)) (\<lambda>(inputs, labels, out_weight).
     bnd (call_ext env (Sequence sq Seq_device)) (\<lambda>d.
     bnd (call_ext env (Model m (Train_step_on_batch inputs labels out_weight d))) (\<lambda>results'.
     train_batches env m sq batches results')))"

definition train_step :: "'f env \<Rightarrow> pyval \<Rightarrow> (pyval, 'f) action" where
  "train_step env sq =
     bnd (gets model) (\<lambda>m.
     bnd (call_ext env (Model m Reset_metrics)) (\<lambda>_.
     bnd (call_ext env (Sequence sq Iter)) (\<lambda>it.
     bnd (lift (as_list it)) (\<lambda>batches.
     train_batches env m sq batches PyNone))))"

fun test_batches :: "'f env \<Rightarrow> pyval \<Rightarrow> pyval \<Rightarrow> pyval list \<Rightarrow> pyval \<Rightarrow> (pyval, 'f) action" where
  "test_batches env m sq [] results = ret results"
| "test_batches env m sq (batch # batches) results =
     bnd (lift (unravel_batch batch)) (\<lambda>(inputs, labels, out_weight).
     bnd (call_ext env (Sequence sq Seq_device)) (\<lambda>d.
     bnd (call_ext env (Model m (Test_step_on_batch inputs labels out_weight d))) (\<lambda>results'.
     test_batches env m sq batches results')))"

definition test_step :: "'f env \<Rightarrow> pyval \<Rightarrow> (pyval, 'f) action" where
  "test_step env sq =
     bnd (gets model) (\<lambda>m.
     bnd (call_ext env (Model m Reset_metrics)) (\<lambda>_.
     bnd (call_ext env (Sequence sq Iter)) (\<lambda>it.
     bnd (lift (as_list it)) (\<lambda>batches.
     test_batches env m sq batches PyNone))))"

text \<open>
  \<^verbatim>\<open>
  def predict_step(self, sequence):
      logits = []
      model = self.model
      for batch in sequence:
          inputs, labels, out_weight = unravel_batch(batch)
          logit = model.predict_step_on_batch(x=inputs, out_weight=out_weight,
                                              device=sequence.device)
          logits.append(logit)
      return np.vstack(logits)
  \<close>
\<close>

fun predict_batches :: "'f env \<Rightarrow> pyval \<Rightarrow> pyval \<Rightarrow> pyval list \<Rightarrow> pyval list \<Rightarrow> (pyval list, 'f) action" where
  "predict_batches env m sq [] logits = ret logits"
| "predict_batches env m sq (batch # batches) logits =
     bnd (lift (unravel_batch batch)) (\<lambda>(inputs, labels, out_weight).
     bnd (call_ext env (Sequence sq Seq_device)) (\<lambda>d.
     bnd (call_ext env (Model m (Predict_step_on_batch inputs out_weight d))) (\<lambda>logit.
     predict_batches env m sq batches (logits @ [logit]))))"

definition predict_step :: "'f env \<Rightarrow> pyval \<Rightarrow> (pyval, 'f) action" where
  "predict_step env sq =
     bnd (gets model) (\<lambda>m.
     bnd (call_ext env (Sequence sq Iter)) (\<lambda>it.
     bnd (lift (as_list it)) (\<lambda>batches.
     bnd (predict_batches env m sq batches []) (\<lambda>logits.
     call_ext env (Lib (Vstack logits))))))"

subsection \<open>Removing the checkpoint files\<close>

text \<open>
  \<^verbatim>\<open>
  def remove_extra_tf_files(filepath):
      for ext in (".data-00000-of-00001", ".data-00000-of-00002",
                  ".data-00001-of-00002", ".index"):
          path = filepath + ext
          if osp.exists(path):
              os.remove(path)
      file_dir = osp.split(osp.realpath(filepath))[0]
      path = osp.join(file_dir, "checkpoint")
      if osp.exists(path):
          os.remove(path)

  def remove_weights(self):
      filepath = self.cfg.train.ModelCheckpoint.path
      if self.backend == "tensorflow":
          remove_extra_tf_files(filepath)
      if osp.exists(filepath):
          os.remove(filepath)
  \<close>
  The files are part of the world; the trainer's own file operations act on them.
\<close>

definition remove_if_exists :: "string \<Rightarrow> 'f world \<Rightarrow> 'f world" where
  "remove_if_exists path w = (if path \<in> files w then w\<lparr>files := files w - {path}\<rparr> else w)"

definition tf_extensions :: "string list" where
  "tf_extensions = [''.data-00000-of-00001'', ''.data-00000-of-00002'',
                    ''.data-00001-of-00002'', ''.index'']"

text \<open>\<^verbatim>\<open>osp.join(d, name)\<close> for a relative \<open>name\<close>, on a POSIX system.\<close>

definition osp_join :: "string \<Rightarrow> string \<Rightarrow> string" where
  "osp_join d name = (if d = [] \<or> last d = CHR ''/'' then d @ name else d @ ''/'' @ name)"

definition remove_extra_tf_files :: "'f env \<Rightarrow> string \<Rightarrow> 'f world \<Rightarrow> 'f world" where
  "remove_extra_tf_files env filepath w =
     remove_if_exists (osp_join (real_dir env filepath) ''checkpoint'')
       (fold (\<lambda>ext. remove_if_exists (filepath @ ext)) tf_extensions w)"

definition ckpt_cfg :: "'f trainer \<Rightarrow> ModelCheckpoint_cfg" where
  "ckpt_cfg s = ModelCheckpoint (cfg_train (cfg s))"

definition es_cfg :: "'f trainer \<Rightarrow> EarlyStopping_cfg" where
  "es_cfg s = EarlyStopping (cfg_train (cfg s))"

definition tb_cfg :: "'f trainer \<Rightarrow> TensorBoard_cfg" where
  "tb_cfg s = TensorBoard (cfg_train (cfg s))"

definition remove_weights :: "'f env \<Rightarrow> (unit, 'f) action" where
  "remove_weights env =
     bnd (gets (\<lambda>s. ckpt_path (ckpt_cfg s))) (\<lambda>filepath.
     bnd (gets backend) (\<lambda>backend'.
     bnd (if backend' = ''tensorflow''
          then modify (\<lambda>s. s\<lparr>world := remove_extra_tf_files env filepath (world s)\<rparr>)
          else ret ()) (\<lambda>_.
     modify (\<lambda>s. s\<lparr>world := remove_if_exists filepath (world s)\<rparr>))))"

subsection \<open>\<^verbatim>\<open>setup_callbacks\<close>\<close>

definition map_ckpt :: "(ModelCheckpoint_cfg \<Rightarrow> ModelCheckpoint_cfg) \<Rightarrow> 'f trainer \<Rightarrow> 'f trainer" where
  "map_ckpt f s =
     s\<lparr>cfg := (cfg s)\<lparr>cfg_train :=
        (cfg_train (cfg s))\<lparr>ModelCheckpoint := f (ModelCheckpoint (cfg_train (cfg s)))\<rparr>\<rparr>\<rparr>"

definition map_es :: "(EarlyStopping_cfg \<Rightarrow> EarlyStopping_cfg) \<Rightarrow> 'f trainer \<Rightarrow> 'f trainer" where
  "map_es f s =
     s\<lparr>cfg := (cfg s)\<lparr>cfg_train :=
        (cfg_train (cfg s))\<lparr>EarlyStopping := f (EarlyStopping (cfg_train (cfg s)))\<rparr>\<rparr>\<rparr>"

definition quote :: string where
  "quote = [CHR 0x27]"

text \<open>The text of the warning, built from the monitor after it was replaced.\<close>

definition invalid_metric :: "string \<Rightarrow> string" where
  "invalid_metric m =
     ''The metric '' @ quote @ ''val_'' @ m @ quote
     @ '' is invalid without validation and has been automatically replaced with ''
     @ quote @ m @ quote @ ''.''"

definition es_callback :: "EarlyStopping_cfg \<Rightarrow> callback" where
  "es_callback c =
     EarlyStopping_cb (es_monitor c) (es_patience c) (es_mode c) (es_verbose c)
       (es_baseline c) (es_restore_best_weights c)"

definition mc_callback :: "ModelCheckpoint_cfg \<Rightarrow> callback" where
  "mc_callback c =
     ModelCheckpoint_cb (ckpt_path c) (ckpt_monitor c) (ckpt_save_best_only c)
       (ckpt_save_weights_only c) (ckpt_vervose c)"

definition tb_callback :: "TensorBoard_cfg \<Rightarrow> callback" where
  "tb_callback c =
     TensorBoard_cb (tb_log_dir c) (tb_write_graph c) (tb_update_freq c)
       (tb_histogram_freq c) (tb_write_images c)"

text \<open>
  \<^verbatim>\<open>
  def setup_callbacks(cfg, callbacks, validation):
      ckpt_cfg = cfg.ModelCheckpoint
      es_cfg = cfg.EarlyStopping
      tb_cfg = cfg.TensorBoard
      if not validation:
          if ckpt_cfg.enabled and ckpt_cfg.monitor.startswith("val_"):
              ckpt_cfg.monitor = ckpt_cfg.monitor[4:]
              warnings.warn(f"The metric 'val_{ckpt_cfg.monitor}' is invalid ...", UserWarning)
          if es_cfg.enabled and es_cfg.monitor.startswith("val_"):
              es_cfg.monitor = es_cfg.monitor[4:]
              warnings.warn(f"The metric 'val_{es_cfg.monitor}' is invalid ...", UserWarning)
      if es_cfg.enabled:
          es_callback = EarlyStopping(monitor=es_cfg.monitor, ...)
          callbacks.append(es_callback)
      if ckpt_cfg.enabled:
          if not ckpt_cfg.path.endswith(gg.file_ext()):
              ckpt_cfg.path += gg.file_ext()
          makedirs_from_filepath(ckpt_cfg.path)
          mc_callback = ModelCheckpoint(ckpt_cfg.path, monitor=ckpt_cfg.monitor, ...)
          callbacks.append(mc_callback)
      if cfg.TerminateOnNaN.enabled:
          callbacks.append(TerminateOnNaN())
      if tb_cfg.enabled:
          callbacks.append(tf.keras.callbacks.TensorBoard(tb_cfg.log_dir, ...))
      return cfg, callbacks
  \<close>
  \<open>cfg\<close> is \<^verbatim>\<open>self.cfg.train\<close> itself, changed in place; the function returns the
  callback list.
\<close>

definition strip_val_ckpt :: "(unit, 'f) action" where
  "strip_val_ckpt =
     bnd (gets ckpt_cfg) (\<lambda>c.
     if ckpt_enabled c \<and> startswith (ckpt_monitor c) ''val_''
     then bnd (modify (map_ckpt (\<lambda>c. c\<lparr>ckpt_monitor := drop 4 (ckpt_monitor c)\<rparr>))) (\<lambda>_.
          bnd (gets ckpt_cfg) (\<lambda>c'.
          emit (Output (Warn (invalid_metric (ckpt_monitor c')))) PyNone))
     else ret ())"

definition strip_val_es :: "(unit, 'f) action" where
  "strip_val_es =
     bnd (gets es_cfg) (\<lambda>c.
     if es_enabled c \<and> startswith (es_monitor c) ''val_''
     then bnd (modify (map_es (\<lambda>c. c\<lparr>es_monitor := drop 4 (es_monitor c)\<rparr>))) (\<lambda>_.
          bnd (gets es_cfg) (\<lambda>c'.
          emit (Output (Warn (invalid_metric (es_monitor c')))) PyNone))
     else ret ())"

definition append_checkpoint :: "'f env \<Rightarrow> callback list \<Rightarrow> (callback list, 'f) action" where
  "append_checkpoint env callbacks =
     bnd (gets ckpt_cfg) (\<lambda>c.
     if ckpt_enabled c
     then bnd (if \<not> endswith (ckpt_path c) (file_ext env)
               then modify (map_ckpt (\<lambda>c. c\<lparr>ckpt_path := ckpt_path c @ file_ext env\<rparr>))
               else ret ()) (\<lambda>_.
          bnd (gets ckpt_cfg) (\<lambda>c'.
          bnd (call_ext env (Lib (Makedirs (ckpt_path c')))) (\<lambda>_.
          ret (callbacks @ [mc_callback c']))))
     else ret callbacks)"

definition setup_callbacks :: "'f env \<Rightarrow> callback list \<Rightarrow> bool \<Rightarrow> (callback list, 'f) action" where
  "setup_callbacks env callbacks validation =
     bnd (if \<not> validation then bnd strip_val_ckpt (\<lambda>_. strip_val_es) else ret ()) (\<lambda>_.
     bnd (gets es_cfg) (\<lambda>es.
     bnd (ret (if es_enabled es then callbacks @ [es_callback es] else callbacks)) (\<lambda>callbacks.
     bnd (append_checkpoint env callbacks) (\<lambda>callbacks.
     bnd (gets (\<lambda>s. TerminateOnNaN_enabled (cfg_train (cfg s)))) (\<lambda>nan.
     bnd (ret (if nan then callbacks @ [TerminateOnNaN_cb] else callbacks)) (\<lambda>callbacks.
     bnd (gets tb_cfg) (\<lambda>tb.
     ret (if tb_enabled tb then callbacks @ [tb_callback tb] else callbacks))))))))"

subsection \<open>\<^verbatim>\<open>train\<close>\<close>

text \<open>
  The local variables of \<^verbatim>\<open>train\<close> that live across the epochs. \<open>f_progbar\<close> is
  \<open>PyNone\<close> while \<^verbatim>\<open>progbar\<close> is unbound; the source never reads it then.
\<close>

record frame =
  f_model :: pyval
  f_train_data :: pyval
  f_val_data :: pyval
  f_validation :: bool
  f_callbacks :: "callback list"
  f_verbose :: int
  f_progbar :: pyval
  f_logs :: pydict

definition build_first :: string where
  "build_first =
     ''You must compile your model before training/testing/predicting. Use `trainer.build()`.''"

text \<open>
  The attribute \<^verbatim>\<open>stop_training\<close> of the model. Only an object carries attributes;
  writing or reading one on a built-in value raises AttributeError.
\<close>

fun is_object :: "pyval \<Rightarrow> bool" where
  "is_object (PyObj n) = True"
| "is_object v = False"

definition set_stop_training :: "pyval \<Rightarrow> bool \<Rightarrow> (unit, 'f) action" where
  "set_stop_training m b =
     (if is_object m
      then bnd (modify (\<lambda>s. s\<lparr>world := (world s)\<lparr>stop_training := b\<rparr>\<rparr>))
             (\<lambda>_. emit (Model m (Set_stop_training b)) PyNone)
      else raise AttributeError)"

definition get_stop_training :: "pyval \<Rightarrow> (bool, 'f) action" where
  "get_stop_training m =
     (if is_object m
      then bnd (gets (\<lambda>s. stop_training (world s))) (\<lambda>b.
           bnd (emit (Model m Get_stop_training) (PyBool b)) (\<lambda>_. ret b))
      else raise AttributeError)"

text \<open>Decimal digits of a number, for the messages.\<close>

fun str_nat :: "nat \<Rightarrow> string" where
  "str_nat n =
     (if n < 10 then [char_of (48 + n)] else str_nat (n div 10) @ [char_of (48 + n mod 10)])"

declare str_nat.simps [simp del]

text \<open>
  \<^verbatim>\<open>
  def train(self, train_data, val_data=None, **kwargs):
      cache = self.cache
      cfg = self.cfg.train
      cfg.merge_from_dict(kwargs)
      ckpt_cfg = cfg.ModelCheckpoint
      es_cfg = cfg.EarlyStopping
      pb_cfg = cfg.Progbar
      model = self.model
      if model is None:
          raise RuntimeError('You must compile your model ... Use `trainer.build()`.')
      if not isinstance(train_data, Sequence):
          train_data = self.train_sequence(train_data)
      if cfg.cache_train_data:
          cache.train_data = train_data
      validation = val_data is not None
      if validation:
          if not isinstance(val_data, Sequence):
              val_data = self.test_sequence(val_data)
          if cfg.cache_val_data:
              cache.val_data = val_data
      callbacks = callbacks_module.CallbackList()
      history = History()
      callbacks.append(history)
      cfg, callbacks = setup_callbacks(cfg, callbacks, validation)
      callbacks.set_model(model)
      model.stop_training = False
      verbose = cfg.verbose
      if verbose:
          if verbose <= 2:
              progbar = Progbar(target=cfg.epochs, width=pb_cfg.width, verbose=verbose)
          print("Training...")
      logs = gf.BunchDict()
      callbacks.on_train_begin()
  \<close>
  This is \<open>train_begin\<close>: all of \<^verbatim>\<open>train\<close> before its \<^verbatim>\<open>try\<close>.
\<close>

definition begin_progbar :: "'f env \<Rightarrow> int \<Rightarrow> (pyval, 'f) action" where
  "begin_progbar env verbose' =
     (if verbose' \<noteq> 0
      then bnd (if verbose' \<le> 2
                then bnd (gets (\<lambda>s. cfg_train (cfg s))) (\<lambda>c.
                     call_ext env (Output (Progbar_new (PyInt (epochs c)) (Progbar_width c) verbose')))
                else ret PyNone) (\<lambda>progbar.
           bnd (emit (Output (Print ''Training...'')) PyNone) (\<lambda>_. ret progbar))
      else ret PyNone)"

definition cache_if :: "('f trainer \<Rightarrow> bool) \<Rightarrow> (cache_node \<Rightarrow> cache_node) \<Rightarrow> (unit, 'f) action" where
  "cache_if flag store =
     bnd (gets flag) (\<lambda>b. if b then modify (\<lambda>s. s\<lparr>cache := store (cache s)\<rparr>) else ret ())"

definition train_begin :: "'f env \<Rightarrow> pyval \<Rightarrow> pyval \<Rightarrow> pydict \<Rightarrow> (frame, 'f) action" where
  "train_begin env train_data val_data kwargs =
     bnd (modify (\<lambda>s. s\<lparr>cfg := (cfg s)\<lparr>cfg_train := merge_train env kwargs (cfg_train (cfg s))\<rparr>\<rparr>))
       (\<lambda>_.
     bnd (gets model) (\<lambda>model'.
     if model' = PyNone then raise (RuntimeError build_first)
     else
       bnd (if \<not> is_Sequence env train_data
            then call_ext env (Self (Train_sequence train_data)) else ret train_data) (\<lambda>train_data'.
       bnd (cache_if (\<lambda>s. cache_train_data (cfg_train (cfg s)))
              (\<lambda>c. c\<lparr>cache_train := train_data'\<rparr>)) (\<lambda>_.
       bnd (if val_data \<noteq> PyNone
            then bnd (if \<not> is_Sequence env val_data
                      then call_ext env (Self (Test_sequence val_data)) else ret val_data) (\<lambda>val_data'.
                 bnd (cache_if (\<lambda>s. cache_val_data (cfg_train (cfg s)))
                        (\<lambda>c. c\<lparr>cache_val := val_data'\<rparr>)) (\<lambda>_. ret val_data'))
            else ret val_data) (\<lambda>val_data'.
       bnd (setup_callbacks env [History] (val_data \<noteq> PyNone)) (\<lambda>callbacks.
       bnd (call_ext env (Set_model callbacks model')) (\<lambda>_.
       bnd (set_stop_training model' False) (\<lambda>_.
       bnd (gets (\<lambda>s. verbose (cfg_train (cfg s)))) (\<lambda>verbose'.
       bnd (begin_progbar env verbose') (\<lambda>progbar.
       bnd (call_ext env (Callbacks callbacks on_train_begin)) (\<lambda>_.
       ret \<lparr>f_model = model', f_train_data = train_data', f_val_data = val_data',
            f_validation = (val_data \<noteq> PyNone), f_callbacks = callbacks,
            f_verbose = verbose', f_progbar = progbar, f_logs = []\<rparr>)))))))))))"

text \<open>
  \<^verbatim>\<open>
          for epoch in range(cfg.epochs):
              if verbose > 2:
                  progbar = Progbar(target=len(train_data), width=pb_cfg.width,
                                    verbose=verbose - 2)
              callbacks.on_epoch_begin(epoch)
              callbacks.on_train_batch_begin(0)
              train_logs = self.train_step(train_data)
              train_data.on_epoch_end()
              logs.update(train_logs)
              if validation:
                  valid_logs = self.test_step(val_data)
                  logs.update({("val_" + k): v for k, v in valid_logs.items()})
                  val_data.on_epoch_end()
              callbacks.on_train_batch_end(len(train_data), logs)
              callbacks.on_epoch_end(epoch, logs)
              if verbose > 2:
                  print(f"Epoch {epoch+1}/{epochs}")
                  progbar.update(len(train_data), logs.items())
              elif verbose:
                  progbar.update(epoch + 1, logs.items())
              if model.stop_training:
                  print(f"Early Stopping at Epoch {epoch}", file=sys.stderr)
                  break
  \<close>
  No name \<^verbatim>\<open>epochs\<close> is bound in \<^verbatim>\<open>train\<close> or in the module, so the first
  \<^verbatim>\<open>print\<close> raises NameError when it evaluates its argument. \<^verbatim>\<open>logs\<close> is a dict
  (\<^verbatim>\<open>gf.BunchDict\<close>); \<^verbatim>\<open>update\<close> with a value that is not a dict, such as the
  \<^verbatim>\<open>None\<close> that \<^verbatim>\<open>train_step\<close> returns for an empty sequence, raises TypeError, and
  such a value has no \<^verbatim>\<open>items\<close>.
\<close>

fun update_logs :: "pydict \<Rightarrow> pyval \<Rightarrow> error + pydict" where
  "update_logs logs (PyDict d) = Inr (dict_update logs d)"
| "update_logs logs v = Inl TypeError"

fun val_items :: "pyval \<Rightarrow> error + pydict" where
  "val_items (PyDict d) = Inr (dict_update [] (map (\<lambda>(k, v). (''val_'' @ k, v)) d))"
| "val_items v = Inl AttributeError"

definition epoch_progbar :: "'f env \<Rightarrow> frame \<Rightarrow> (pyval, 'f) action" where
  "epoch_progbar env fr =
     (if f_verbose fr > 2
      then bnd (call_ext env (Sequence (f_train_data fr) Len)) (\<lambda>n.
           bnd (gets (\<lambda>s. Progbar_width (cfg_train (cfg s)))) (\<lambda>width.
           call_ext env (Output (Progbar_new n width (f_verbose fr - 2)))))
      else ret (f_progbar fr))"

definition epoch_validation :: "'f env \<Rightarrow> frame \<Rightarrow> pydict \<Rightarrow> (pydict, 'f) action" where
  "epoch_validation env fr logs =
     (if f_validation fr
      then bnd (test_step env (f_val_data fr)) (\<lambda>valid_logs.
           bnd (lift (val_items valid_logs)) (\<lambda>items.
           bnd (call_ext env (Sequence (f_val_data fr) Seq_on_epoch_end)) (\<lambda>_.
           ret (dict_update logs items))))
      else ret logs)"

definition epoch_report :: "'f env \<Rightarrow> frame \<Rightarrow> pyval \<Rightarrow> nat \<Rightarrow> pydict \<Rightarrow> (unit, 'f) action" where
  "epoch_report env fr progbar epoch logs =
     (if f_verbose fr > 2 then raise (NameError ''epochs'')
      else if f_verbose fr \<noteq> 0
      then bnd (call_ext env (Output (Progbar_update progbar (PyInt (int epoch + 1)) logs)))
             (\<lambda>_. ret ())
      else ret ())"

text \<open>The body of the loop; its result tells whether the loop is left by \<^verbatim>\<open>break\<close>.\<close>

definition early_stopping :: "nat \<Rightarrow> string" where
  "early_stopping epoch = ''Early Stopping at Epoch '' @ str_nat epoch"

definition epoch_body :: "'f env \<Rightarrow> frame \<Rightarrow> nat \<Rightarrow> (frame \<times> bool, 'f) action" where
  "epoch_body env fr epoch =
     bnd (epoch_progbar env fr) (\<lambda>progbar.
     bnd (call_ext env (Callbacks (f_callbacks fr) (on_epoch_begin epoch))) (\<lambda>_.
     bnd (call_ext env (Callbacks (f_callbacks fr) (on_train_batch_begin 0))) (\<lambda>_.
     bnd (train_step env (f_train_data fr)) (\<lambda>train_logs.
     bnd (call_ext env (Sequence (f_train_data fr) Seq_on_epoch_end)) (\<lambda>_.
     bnd (lift (update_logs (f_logs fr) train_logs)) (\<lambda>logs1.
     bnd (epoch_validation env fr logs1) (\<lambda>logs.
     bnd (call_ext env (Sequence (f_train_data fr) Len)) (\<lambda>n.
     bnd (call_ext env (Callbacks (f_callbacks fr) (on_train_batch_end n logs))) (\<lambda>_.
     bnd (call_ext env (Callbacks (f_callbacks fr) (on_epoch_end epoch logs))) (\<lambda>_.
     bnd (epoch_report env fr progbar epoch logs) (\<lambda>_.
     bnd (get_stop_training (f_model fr)) (\<lambda>stop.
     bnd (if stop
          then emit (Output (Print_stderr (early_stopping epoch))) PyNone
          else ret ()) (\<lambda>_.
     ret (fr\<lparr>f_progbar := progbar, f_logs := logs\<rparr>, stop))))))))))))))"

fun epoch_loop :: "'f env \<Rightarrow> frame \<Rightarrow> nat list \<Rightarrow> (frame, 'f) action" where
  "epoch_loop env fr [] = ret fr"
| "epoch_loop env fr (epoch # rest) =
     bnd (epoch_body env fr epoch)
       (\<lambda>(fr', stop). if stop then ret fr' else epoch_loop env fr' rest)"

text \<open>
  \<^verbatim>\<open>
      try:
          for epoch in range(cfg.epochs): ...
          callbacks.on_train_end()
          if ckpt_cfg.enabled:
              if ckpt_cfg.save_weights_only:
                  model.load_weights(ckpt_cfg.path)
              else:
                  self.model = model.load(ckpt_cfg.path)
      finally:
          if ckpt_cfg.enabled and ckpt_cfg.remove_weights:
              self.remove_weights()
      return history
  \<close>
  \<^verbatim>\<open>range(n)\<close> is empty for \<open>n \<le> 0\<close>.
\<close>

definition restore_checkpoint :: "'f env \<Rightarrow> frame \<Rightarrow> (unit, 'f) action" where
  "restore_checkpoint env fr =
     bnd (gets ckpt_cfg) (\<lambda>c.
     if ckpt_enabled c
     then (if ckpt_save_weights_only c
           then bnd (call_ext env (Model (f_model fr) (Load_weights (ckpt_path c)))) (\<lambda>_. ret ())
           else bnd (call_ext env (Model (f_model fr) (Load (ckpt_path c)))) (\<lambda>m. set_model env m))
     else ret ())"

definition train_try :: "'f env \<Rightarrow> frame \<Rightarrow> (unit, 'f) action" where
  "train_try env fr =
     bnd (gets (\<lambda>s. epochs (cfg_train (cfg s)))) (\<lambda>n.
     bnd (epoch_loop env fr [0 ..< nat n]) (\<lambda>fr'.
     bnd (call_ext env (Callbacks (f_callbacks fr) on_train_end)) (\<lambda>_.
     restore_checkpoint env fr)))"

definition train_finally :: "'f env \<Rightarrow> (unit, 'f) action" where
  "train_finally env =
     bnd (gets ckpt_cfg) (\<lambda>c.
     if ckpt_enabled c \<and> ckpt_remove_weights c then remove_weights env else ret ())"

definition train :: "'f env \<Rightarrow> pyval \<Rightarrow> pyval \<Rightarrow> pydict \<Rightarrow> (callback, 'f) action" where
  "train env train_data val_data kwargs =
     bnd (train_begin env train_data val_data kwargs) (\<lambda>fr.
     bnd (try_finally (train_try env fr) (train_finally env)) (\<lambda>_.
     ret History))"

subsection \<open>\<^verbatim>\<open>test\<close> and \<^verbatim>\<open>predict\<close>\<close>

text \<open>
  \<^verbatim>\<open>
  def test(self, data, **kwargs):
      if not self.model:
          raise RuntimeError('You must compile your model ... Use `trainer.build()`.')
      cache = self.cache
      cfg = self.cfg.test
      cfg.merge_from_dict(kwargs)
      if isinstance(data, Sequence):
          test_data = data
      else:
          test_data = self.test_sequence(data)
      if cfg.cache_test_data:
          cache.test_data = test_data
      if cfg.verbose:
          print("Testing...")
      progbar = Progbar(target=len(test_data), width=cfg.Progbar.width, verbose=cfg.verbose)
      logs = gf.BunchDict(**self.test_step(test_data))
      logs.update({k: v.numpy().item() for k, v in logs.items()})
      progbar.update(len(test_data), logs.items())
      return logs
  \<close>
\<close>

fun numpy_items :: "'f env \<Rightarrow> pydict \<Rightarrow> (pydict, 'f) action" where
  "numpy_items env [] = ret []"
| "numpy_items env ((k, v) # items) =
     bnd (call_ext env (Lib (Numpy_item v))) (\<lambda>x.
     bnd (numpy_items env items) (\<lambda>rest. ret ((k, x) # rest)))"

definition test :: "'f env \<Rightarrow> pyval \<Rightarrow> pydict \<Rightarrow> (pyval, 'f) action" where
  "test env data kwargs =
     bnd (gets model) (\<lambda>model'.
     if \<not> truthy env model' then raise (RuntimeError build_first)
     else
       bnd (modify (\<lambda>s. s\<lparr>cfg := (cfg s)\<lparr>cfg_test := merge_test env kwargs (cfg_test (cfg s))\<rparr>\<rparr>)) (\<lambda>_.
       bnd (if is_Sequence env data then ret data
            else call_ext env (Self (Test_sequence data))) (\<lambda>test_data.
       bnd (cache_if (\<lambda>s. cache_test_data (cfg_test (cfg s)))
              (\<lambda>c. c\<lparr>cache_test := test_data\<rparr>)) (\<lambda>_.
       bnd (gets (\<lambda>s. cfg_test (cfg s))) (\<lambda>c.
       bnd (if test_verbose c \<noteq> 0 then emit (Output (Print ''Testing...'')) PyNone else ret ()) (\<lambda>_.
       bnd (call_ext env (Sequence test_data Len)) (\<lambda>n.
       bnd (call_ext env (Output (Progbar_new n (test_Progbar_width c) (test_verbose c)))) (\<lambda>progbar.
       bnd (test_step env test_data) (\<lambda>results.
       bnd (lift (as_dict results)) (\<lambda>d.
       bnd (numpy_items env (dict_update [] d)) (\<lambda>items.
       bnd (call_ext env (Sequence test_data Len)) (\<lambda>n'.
       bnd (call_ext env (Output (Progbar_update progbar n' (dict_update (dict_update [] d) items))))
         (\<lambda>_.
       ret (PyDict (dict_update (dict_update [] d) items)))))))))))))))"

text \<open>
  \<^verbatim>\<open>
  def predict(self, predict_data=None, return_logits=True):
      if not self.model:
          raise RuntimeError('You must compile your model ... Use `trainer.build()`.')
      cache = self.cache
      cfg = self.cfg.predict
      cfg.return_logits = return_logits
      if predict_data is None:
          predict_data = np.arange(self.graph.num_nodes)
      if not isinstance(predict_data, Sequence):
          predict_data = gf.asarray(predict_data)
          predict_data = self.predict_sequence(predict_data)
      cache.predict_data = predict_data
      logits = self.predict_step(predict_data)
      if not return_logits:
          logits = softmax(logits)
      return logits.squeeze()
  \<close>
\<close>

definition predict :: "'f env \<Rightarrow> pyval \<Rightarrow> bool \<Rightarrow> (pyval, 'f) action" where
  "predict env predict_data return_logits =
     bnd (gets model) (\<lambda>model'.
     if \<not> truthy env model' then raise (RuntimeError build_first)
     else
       bnd (modify (\<lambda>s. s\<lparr>cfg := (cfg s)\<lparr>cfg_predict_return_logits := return_logits\<rparr>\<rparr>)) (\<lambda>_.
       bnd (if predict_data = PyNone then call_ext env (Lib Np_arange_num_nodes)
            else ret predict_data) (\<lambda>data1.
       bnd (if \<not> is_Sequence env data1
            then bnd (call_ext env (Lib (As_array data1)))
                   (\<lambda>a. call_ext env (Self (Predict_sequence a)))
            else ret data1) (\<lambda>data2.
       bnd (modify (\<lambda>s. s\<lparr>cache := (cache s)\<lparr>cache_predict := data2\<rparr>\<rparr>)) (\<lambda>_.
       bnd (predict_step env data2) (\<lambda>logits.
       bnd (if \<not> return_logits then call_ext env (Lib (Softmax logits)) else ret logits) (\<lambda>logits'.
       call_ext env (Lib (Squeeze logits')))))))))"

section \<open>Reading a trace\<close>

text \<open>
  The calls a run made on a callback list, in order; the values of \<^verbatim>\<open>stop_training\<close>
  it read; the epochs it began.
\<close>

fun hooks :: "(call \<times> (error + pyval)) list \<Rightarrow> (callback list \<times> hook) list" where
  "hooks [] = []"
| "hooks ((Callbacks cbs h, r) # t) = (cbs, h) # hooks t"
| "hooks (e # t) = hooks t"

fun stops :: "(call \<times> (error + pyval)) list \<Rightarrow> bool list" where
  "stops [] = []"
| "stops ((Model m Get_stop_training, Inr (PyBool b)) # t) = b # stops t"
| "stops (e # t) = stops t"

fun begun :: "(callback list \<times> hook) list \<Rightarrow> nat list" where
  "begun [] = []"
| "begun ((cbs, on_epoch_begin epoch) # hs) = epoch # begun hs"
| "begun (h # hs) = begun hs"

text \<open>The four calls on the callback list that one epoch makes.\<close>

definition epoch_hooks :: "callback list \<Rightarrow> nat \<Rightarrow> pyval \<Rightarrow> pydict \<Rightarrow> (callback list \<times> hook) list" where
  "epoch_hooks cbs epoch n logs =
     [(cbs, on_epoch_begin epoch), (cbs, on_train_batch_begin 0),
      (cbs, on_train_batch_end n logs), (cbs, on_epoch_end epoch logs)]"

text \<open>
  The progress-bar updates of a run, the messages it wrote to the error stream, the
  warnings it gave, and the epochs whose \<^verbatim>\<open>on_epoch_end\<close> returned.
\<close>

type_synonym trace = "(call \<times> (error + pyval)) list"

fun reports :: "trace \<Rightarrow> call list" where
  "reports [] = []"
| "reports ((Output (Progbar_update p n l), r) # t) = Output (Progbar_update p n l) # reports t"
| "reports (e # t) = reports t"

fun breaks :: "trace \<Rightarrow> string list" where
  "breaks [] = []"
| "breaks ((Output (Print_stderr x), r) # t) = x # breaks t"
| "breaks (e # t) = breaks t"

fun warnings :: "trace \<Rightarrow> string list" where
  "warnings [] = []"
| "warnings ((Output (Warn x), r) # t) = x # warnings t"
| "warnings (e # t) = warnings t"

fun ended :: "trace \<Rightarrow> nat list" where
  "ended [] = []"
| "ended ((Callbacks cbs (on_epoch_end epoch logs), Inr v) # t) = epoch # ended t"
| "ended (e # t) = ended t"

text \<open>Interactions that none of the readings above sees.\<close>

fun plain :: "call \<Rightarrow> bool" where
  "plain (Callbacks cbs h) = False"
| "plain (Model m Get_stop_training) = False"
| "plain (Output (Progbar_update p n l)) = False"
| "plain (Output (Print_stderr x)) = False"
| "plain c = True"

definition quiet :: "trace \<Rightarrow> bool" where
  "quiet t \<longleftrightarrow> list_all (\<lambda>e. plain (fst e)) t"

section \<open>Reasoning about actions\<close>

text \<open>
  An action \<open>advances\<close> the trainer when it changes nothing but the world and the
  trace, which it extends by \<open>t\<close>. \<open>yields m Q\<close>: every run of \<open>m\<close> advances the
  trainer, and its outcome and the extension of the trace satisfy \<open>Q\<close>. \<open>seqQ\<close> is
  what a sequence of two actions yields.
\<close>

definition advances :: "'f trainer \<Rightarrow> 'f trainer \<Rightarrow> trace \<Rightarrow> bool" where
  "advances s s' t \<longleftrightarrow> (\<exists>w. s' = s\<lparr>world := w, trace := trace s @ t\<rparr>)"

definition yields :: "('a, 'f) action \<Rightarrow> (error + 'a \<Rightarrow> trace \<Rightarrow> bool) \<Rightarrow> bool" where
  "yields m Q \<longleftrightarrow> (\<forall>s r s'. m s = (r, s') \<longrightarrow> (\<exists>t. advances s s' t \<and> Q r t))"

definition seqQ :: "(error + 'a \<Rightarrow> trace \<Rightarrow> bool) \<Rightarrow> ('a \<Rightarrow> error + 'b \<Rightarrow> trace \<Rightarrow> bool)
    \<Rightarrow> error + 'b \<Rightarrow> trace \<Rightarrow> bool" where
  "seqQ Q1 Q2 r t \<longleftrightarrow>
     (\<exists>e. r = Inl e \<and> Q1 (Inl e) t) \<or> (\<exists>x t1 t2. t = t1 @ t2 \<and> Q1 (Inr x) t1 \<and> Q2 x r t2)"

text \<open>
  \<open>acts m Q\<close>: every run of \<open>m\<close> extends the trace, and the states before and after,
  the outcome and the extension satisfy \<open>Q\<close>.
\<close>

definition acts :: "('a, 'f) action \<Rightarrow> ('f trainer \<Rightarrow> error + 'a \<Rightarrow> trace \<Rightarrow> 'f trainer \<Rightarrow> bool) \<Rightarrow> bool" where
  "acts m Q \<longleftrightarrow> (\<forall>s r s'. m s = (r, s') \<longrightarrow> (\<exists>t. trace s' = trace s @ t \<and> Q s r t s'))"

definition seqA :: "('f trainer \<Rightarrow> error + 'a \<Rightarrow> trace \<Rightarrow> 'f trainer \<Rightarrow> bool)
    \<Rightarrow> ('a \<Rightarrow> 'f trainer \<Rightarrow> error + 'b \<Rightarrow> trace \<Rightarrow> 'f trainer \<Rightarrow> bool)
    \<Rightarrow> 'f trainer \<Rightarrow> error + 'b \<Rightarrow> trace \<Rightarrow> 'f trainer \<Rightarrow> bool" where
  "seqA Q1 Q2 s r t s' \<longleftrightarrow>
     (\<exists>e. r = Inl e \<and> Q1 s (Inl e) t s')
     \<or> (\<exists>x t1 t2 s1. t = t1 @ t2 \<and> Q1 s (Inr x) t1 s1 \<and> Q2 x s1 r t2 s')"

section \<open>What the parts of \<^verbatim>\<open>train\<close> do\<close>

text \<open>
  The callbacks that \<^verbatim>\<open>setup_callbacks\<close> appends for a configuration, in its order, and
  what it does to a monitor.
\<close>

definition expected_callbacks :: "train_cfg \<Rightarrow> callback list" where
  "expected_callbacks c =
     (if es_enabled (EarlyStopping c) then [es_callback (EarlyStopping c)] else [])
     @ (if ckpt_enabled (ModelCheckpoint c) then [mc_callback (ModelCheckpoint c)] else [])
     @ (if TerminateOnNaN_enabled c then [TerminateOnNaN_cb] else [])
     @ (if tb_enabled (TensorBoard c) then [tb_callback (TensorBoard c)] else [])"

definition strip_monitor :: "bool \<Rightarrow> bool \<Rightarrow> string \<Rightarrow> string" where
  "strip_monitor validation enabled m =
     (if \<not> validation \<and> enabled \<and> startswith m ''val_'' then drop 4 m else m)"

definition strip_warning :: "bool \<Rightarrow> bool \<Rightarrow> string \<Rightarrow> string list" where
  "strip_warning validation enabled m =
     (if \<not> validation \<and> enabled \<and> startswith m ''val_'' then [invalid_metric (drop 4 m)] else [])"

definition setup_post :: "callback list \<Rightarrow> bool \<Rightarrow> 'f trainer \<Rightarrow> error + callback list \<Rightarrow> trace
    \<Rightarrow> 'f trainer \<Rightarrow> bool" where
  "setup_post cbs validation s r t s' \<longleftrightarrow>
     quiet t \<and> cache s' = cache s \<and> model s' = model s \<and> backend s' = backend s
     \<and> (\<forall>cbs'. r = Inr cbs' \<longrightarrow> cbs' = cbs @ expected_callbacks (cfg_train (cfg s')))
     \<and> ckpt_monitor (ckpt_cfg s') =
         strip_monitor validation (ckpt_enabled (ckpt_cfg s)) (ckpt_monitor (ckpt_cfg s))
     \<and> es_monitor (es_cfg s') =
         strip_monitor validation (es_enabled (es_cfg s)) (es_monitor (es_cfg s))
     \<and> warnings t =
         strip_warning validation (ckpt_enabled (ckpt_cfg s)) (ckpt_monitor (ckpt_cfg s))
         @ strip_warning validation (es_enabled (es_cfg s)) (es_monitor (es_cfg s))"

text \<open>What one epoch yields, and what the loop over a list of epochs yields.\<close>

definition same_frame :: "frame \<Rightarrow> frame \<Rightarrow> bool" where
  "same_frame fr fr' \<longleftrightarrow>
     f_model fr' = f_model fr \<and> f_train_data fr' = f_train_data fr
     \<and> f_val_data fr' = f_val_data fr \<and> f_validation fr' = f_validation fr
     \<and> f_callbacks fr' = f_callbacks fr \<and> f_verbose fr' = f_verbose fr"

definition body_post :: "frame \<Rightarrow> nat \<Rightarrow> error + frame \<times> bool \<Rightarrow> trace \<Rightarrow> bool" where
  "body_post fr epoch r t \<longleftrightarrow>
     (case r of
        Inr (fr', stop) \<Rightarrow>
          f_verbose fr \<le> 2
          \<and> (\<exists>n. hooks t = epoch_hooks (f_callbacks fr) epoch n (f_logs fr'))
          \<and> stops t = [stop]
          \<and> breaks t = (if stop then [early_stopping epoch] else [])
          \<and> ended t = [epoch]
          \<and> same_frame fr fr'
      | Inl e \<Rightarrow>
          (\<exists>n logs. prefix (hooks t) (epoch_hooks (f_callbacks fr) epoch n logs))
          \<and> stops t = [] \<and> breaks t = []
          \<and> set (ended t) \<subseteq> {epoch}
          \<and> (f_verbose fr > 2 \<longrightarrow> reports t = [] \<and> (ended t \<noteq> [] \<longrightarrow> e = NameError ''epochs'')))"

definition round_hooks :: "callback list \<Rightarrow> (nat \<times> pyval \<times> pydict) list \<Rightarrow> (callback list \<times> hook) list" where
  "round_hooks cbs rounds = concat (map (\<lambda>(epoch, n, logs). epoch_hooks cbs epoch n logs) rounds)"

definition loop_post :: "frame \<Rightarrow> nat list \<Rightarrow> error + frame \<Rightarrow> trace \<Rightarrow> bool" where
  "loop_post fr es r t \<longleftrightarrow>
     (case r of
        Inr fr' \<Rightarrow>
          (\<exists>rounds broke.
             hooks t = round_hooks (f_callbacks fr) rounds
             \<and> prefix (map fst rounds) es
             \<and> ended t = map fst rounds
             \<and> same_frame fr fr'
             \<and> (es \<noteq> [] \<longrightarrow> f_verbose fr \<le> 2)
             \<and> (if broke
                 then rounds \<noteq> []
                      \<and> stops t = replicate (length rounds - 1) False @ [True]
                      \<and> breaks t = [early_stopping (fst (last rounds))]
                 else map fst rounds = es
                      \<and> stops t = replicate (length rounds) False \<and> breaks t = []))
      | Inl e \<Rightarrow>
          (\<exists>rounds part n logs.
             hooks t = round_hooks (f_callbacks fr) rounds @ part
             \<and> prefix (map fst rounds) es \<and> length rounds < length es
             \<and> prefix part (epoch_hooks (f_callbacks fr) (es ! length rounds) n logs)
             \<and> stops t = replicate (length rounds) False \<and> breaks t = []
             \<and> (f_verbose fr > 2 \<longrightarrow>
                   rounds = [] \<and> reports t = [] \<and> (ended t \<noteq> [] \<longrightarrow> e = NameError ''epochs''))))"

section \<open>Properties\<close>

subsection \<open>The shape of \<^verbatim>\<open>unravel_batch\<close>\<close>

lemma unravel_items_two: "length xs = 2 \<Longrightarrow> unravel_items xs = Inr (xs ! 0, xs ! 1, PyNone)"
  by (cases xs rule: unravel_items.cases) auto

lemma unravel_items_more:
  "length xs > 2 \<Longrightarrow> unravel_items xs = Inr (xs ! 0, xs ! 1, xs ! (length xs - 1))"
proof (cases xs rule: unravel_items.cases)
  case (3 inputs labels rest)
  assume "length xs > 2"
  with 3 have "rest \<noteq> []" by auto
  then have "last (inputs # labels # rest) = (inputs # labels # rest) ! (length (inputs # labels # rest) - 1)"
    by (simp only: last_conv_nth [of "inputs # labels # rest"] list.distinct not_False_eq_True)
  with 3 \<open>length xs > 2\<close> show ?thesis by simp
qed auto

lemma unravel_items_short: "length xs < 2 \<Longrightarrow> unravel_items xs = Inl IndexError"
  by (cases xs rule: unravel_items.cases) auto

text \<open>
  Claim C8. A batch that is neither a list nor a tuple is returned as the inputs, with
  no labels and no out-weight. A list or tuple of exactly two items gives its two items
  and no out-weight; one of more than two items gives its first two items and its
  last item (Python's \<open>batch[-1]\<close>) as the out-weight, whatever its length; one of
  fewer than two items raises IndexError.
\<close>

theorem unravel_batch_shape:
  "((\<forall>ys. batch \<noteq> PyList ys \<and> batch \<noteq> PyTuple ys) \<longrightarrow>
      unravel_batch batch = Inr (batch, PyNone, PyNone))
   \<and> ((batch = PyList xs \<or> batch = PyTuple xs) \<and> length xs = 2 \<longrightarrow>
      unravel_batch batch = Inr (xs ! 0, xs ! 1, PyNone))
   \<and> ((batch = PyList xs \<or> batch = PyTuple xs) \<and> length xs > 2 \<longrightarrow>
      unravel_batch batch = Inr (xs ! 0, xs ! 1, xs ! (length xs - 1)))
   \<and> ((batch = PyList xs \<or> batch = PyTuple xs) \<and> length xs < 2 \<longrightarrow>
      unravel_batch batch = Inl IndexError)"
proof (intro conjI impI)
  assume "\<forall>ys. batch \<noteq> PyList ys \<and> batch \<noteq> PyTuple ys"
  then show "unravel_batch batch = Inr (batch, PyNone, PyNone)"
    by (cases batch) auto
next
  assume "(batch = PyList xs \<or> batch = PyTuple xs) \<and> length xs = 2"
  then show "unravel_batch batch = Inr (xs ! 0, xs ! 1, PyNone)"
    using unravel_items_two [of xs] by auto
next
  assume "(batch = PyList xs \<or> batch = PyTuple xs) \<and> length xs > 2"
  then show "unravel_batch batch = Inr (xs ! 0, xs ! 1, xs ! (length xs - 1))"
    using unravel_items_more [of xs] by auto
next
  assume "(batch = PyList xs \<or> batch = PyTuple xs) \<and> length xs < 2"
  then show "unravel_batch batch = Inl IndexError"
    using unravel_items_short [of xs] by auto
qed

theorem unravel_batch_shape_witness:
  "unravel_batch (PyObj 7) = Inr (PyObj 7, PyNone, PyNone)
   \<and> unravel_batch (PyTuple [PyObj 1, PyObj 2]) = Inr (PyObj 1, PyObj 2, PyNone)
   \<and> unravel_batch (PyList [PyObj 1, PyObj 2, PyObj 3, PyObj 4]) = Inr (PyObj 1, PyObj 2, PyObj 4)
   \<and> unravel_batch (PyList [PyObj 1]) = Inl IndexError"
proof -
  have a: "\<forall>ys. PyObj 7 \<noteq> PyList ys \<and> PyObj 7 \<noteq> PyTuple ys" by simp
  have b: "(PyTuple [PyObj 1, PyObj 2] = PyList [PyObj 1, PyObj 2]
            \<or> PyTuple [PyObj 1, PyObj 2] = PyTuple [PyObj 1, PyObj 2])
           \<and> length [PyObj 1, PyObj 2] = 2" by simp
  have c: "(PyList [PyObj 1, PyObj 2, PyObj 3, PyObj 4] = PyList [PyObj 1, PyObj 2, PyObj 3, PyObj 4]
            \<or> PyList [PyObj 1, PyObj 2, PyObj 3, PyObj 4] = PyTuple [PyObj 1, PyObj 2, PyObj 3, PyObj 4])
           \<and> length [PyObj 1, PyObj 2, PyObj 3, PyObj 4] > 2" by simp
  have d: "(PyList [PyObj 1] = PyList [PyObj 1] \<or> PyList [PyObj 1] = PyTuple [PyObj 1])
           \<and> length [PyObj 1] < 2" by simp
  from a unravel_batch_shape [of "PyObj 7" "[]"]
  have 1: "unravel_batch (PyObj 7) = Inr (PyObj 7, PyNone, PyNone)" by blast
  from b unravel_batch_shape [of "PyTuple [PyObj 1, PyObj 2]" "[PyObj 1, PyObj 2]"]
  have 2: "unravel_batch (PyTuple [PyObj 1, PyObj 2]) = Inr (PyObj 1, PyObj 2, PyNone)"
    by simp
  from c unravel_batch_shape [of "PyList [PyObj 1, PyObj 2, PyObj 3, PyObj 4]"
      "[PyObj 1, PyObj 2, PyObj 3, PyObj 4]"]
  have 3: "unravel_batch (PyList [PyObj 1, PyObj 2, PyObj 3, PyObj 4])
           = Inr (PyObj 1, PyObj 2, PyObj 4)"
    by simp
  from d unravel_batch_shape [of "PyList [PyObj 1]" "[PyObj 1]"]
  have 4: "unravel_batch (PyList [PyObj 1]) = Inl IndexError" by simp
  from 1 2 3 4 show ?thesis by blast
qed

end
